theory Spec2Isabelle
  imports Main "HOL-Library.Sublist"
begin

section \<open>The chained-server dialer of flashlight/client/chained.go\<close>

text \<open>
  The development follows \<^verbatim>\<open>client/chained.go\<close>: the bounded list of check targets
  (\<^verbatim>\<open>siteList\<close>), the bookkeeping of dialed addresses (\<^verbatim>\<open>addCheckTarget\<close>), the
  header policy (\<^verbatim>\<open>attachHeaders\<close>), the health check (\<^verbatim>\<open>check\<close>) and
  the constructor (\<^verbatim>\<open>Dialer\<close>). Calls are modelled one at a time, in sequence: a method
  that mutates its receiver takes the receiver and returns the updated one. Logging is left
  out; it changes no value.
\<close>

subsection \<open>siteList: a buffered channel of strings\<close>

text \<open>
  A Go channel \<^verbatim>\<open>chan string\<close> made with \<^verbatim>\<open>make(chan string, size)\<close>, seen between two
  operations: its capacity and the strings queued in it, oldest first. The field \<^verbatim>\<open>ch\<close>
  of a \<^verbatim>\<open>siteList\<close> is \<open>None\<close> while the channel is \<^verbatim>\<open>nil\<close>.
\<close>

record chan =
  cap :: nat
  buf :: "string list"

record siteList =
  ch :: "chan option"

text \<open>\<^verbatim>\<open>if q.ch == nil { q.ch = make(chan string, size) }\<close>\<close>

definition initIfNecessary :: "siteList \<Rightarrow> nat \<Rightarrow> siteList" where
  "initIfNecessary q n =
     (case ch q of
        None \<Rightarrow> q\<lparr>ch := Some \<lparr>cap = n, buf = []\<rparr>\<rparr>
      | Some c \<Rightarrow> q)"

text \<open>
  \<^verbatim>\<open>select { case q.ch <- addr: default: }\<close> The send is taken when the buffer has room;
  on a full buffer, and on a nil channel, the \<^verbatim>\<open>default\<close> branch runs and nothing changes.
\<close>

definition add :: "siteList \<Rightarrow> string \<Rightarrow> siteList" where
  "add q addr =
     (case ch q of
        None \<Rightarrow> q
      | Some c \<Rightarrow>
          if length (buf c) < cap c then q\<lparr>ch := Some (c\<lparr>buf := buf c @ [addr]\<rparr>)\<rparr>
          else q)"

text \<open>
  \<^verbatim>\<open>select { case addr = <-q.ch: default: }; return\<close> The receive is taken when a string is
  queued; otherwise the named result keeps its zero value, the empty string.
\<close>

definition get :: "siteList \<Rightarrow> string \<times> siteList" where
  "get q =
     (case ch q of
        None \<Rightarrow> ('''', q)
      | Some c \<Rightarrow>
          (case buf c of
             [] \<Rightarrow> ('''', q)
           | addr # rest \<Rightarrow> (addr, q\<lparr>ch := Some (c\<lparr>buf := rest\<rparr>)\<rparr>)))"

text \<open>The strings resident in the list, oldest first.\<close>

definition entries :: "siteList \<Rightarrow> string list" where
  "entries q = (case ch q of None \<Rightarrow> [] | Some c \<Rightarrow> buf c)"

text \<open>A sequence of calls on one list, and the list they leave.\<close>

datatype siteList_op = Add string | Get

fun apply_op :: "siteList \<Rightarrow> siteList_op \<Rightarrow> siteList" where
  "apply_op q (Add addr) = add q addr"
| "apply_op q Get = snd (get q)"

fun apply_ops :: "siteList \<Rightarrow> siteList_op list \<Rightarrow> siteList" where
  "apply_ops q [] = q"
| "apply_ops q (x # xs) = apply_ops (apply_op q x) xs"

text \<open>The list of a fresh \<^verbatim>\<open>ChainedServerInfo\<close> after \<^verbatim>\<open>initIfNecessary(10)\<close>.\<close>

definition fresh10 :: siteList where
  "fresh10 = initIfNecessary \<lparr>ch = None\<rparr> 10"

subsection \<open>Strings: the library functions the file calls\<close>

text \<open>
  Go strings are byte sequences, here \<open>char list\<close>. \<^verbatim>\<open>strings.IndexByte\<close> and
  \<^verbatim>\<open>strings.LastIndexByte\<close> return \<open>-1\<close> when the byte does not occur, here \<open>None\<close>.
\<close>

fun IndexByte :: "string \<Rightarrow> char \<Rightarrow> nat option" where
  "IndexByte [] c = None"
| "IndexByte (x # xs) c = (if x = c then Some 0 else map_option Suc (IndexByte xs c))"

definition LastIndexByte :: "string \<Rightarrow> char \<Rightarrow> nat option" where
  "LastIndexByte s c = map_option (\<lambda>i. length s - 1 - i) (IndexByte (rev s) c)"

text \<open>\<^verbatim>\<open>s[i:j]\<close> and \<^verbatim>\<open>s[i:]\<close>, used only with \<open>i \<le> j \<le> len(s)\<close>.\<close>

definition slice :: "string \<Rightarrow> nat \<Rightarrow> nat \<Rightarrow> string" where
  "slice s i j = take (j - i) (drop i s)"

text \<open>
  \<^verbatim>\<open>strings.HasSuffix\<close>:
  \<^verbatim>\<open>len(s) >= len(suffix) && s[len(s)-len(suffix):] == suffix\<close>
\<close>

definition HasSuffix :: "string \<Rightarrow> string \<Rightarrow> bool" where
  "HasSuffix s suf = (length s \<ge> length suf \<and> drop (length s - length suf) s = suf)"

text \<open>
  \<^verbatim>\<open>net.SplitHostPort\<close> of the Go standard library. The port starts after the last colon;
  a host in square brackets must end just before that colon; a host without brackets holds
  no colon; no other bracket may occur. \<open>Inl\<close> carries the \<^verbatim>\<open>AddrError\<close> text. The
  string is indexed only where it is long enough: at 0 once it holds a colon, and after the
  closing bracket once that bracket is not its last byte.
\<close>

definition SplitHostPort :: "string \<Rightarrow> string + (string \<times> string)" where
  "SplitHostPort hostport =
     (case LastIndexByte hostport (CHR '':'') of
        None \<Rightarrow> Inl ''missing port in address''
      | Some i \<Rightarrow>
          let finish = (\<lambda>host j k.
                if IndexByte (drop j hostport) (CHR ''['') \<noteq> None
                  then Inl ''unexpected [ in address''
                else if IndexByte (drop k hostport) (CHR '']'') \<noteq> None
                  then Inl ''unexpected ] in address''
                else Inr (host, drop (i + 1) hostport))
          in if hostport ! 0 = CHR ''[''
             then (case IndexByte hostport (CHR '']'') of
                     None \<Rightarrow> Inl ''missing ] in address''
                   | Some e \<Rightarrow>
                       if e + 1 = length hostport then Inl ''missing port in address''
                       else if e + 1 = i then finish (slice hostport 1 e) 1 (e + 1)
                       else if hostport ! (e + 1) = CHR '':''
                         then Inl ''too many colons in address''
                       else Inl ''missing port in address'')
             else if IndexByte (take i hostport) (CHR '':'') \<noteq> None
               then Inl ''too many colons in address''
             else finish (take i hostport) 0 0)"

subsection \<open>HTTP requests and headers\<close>

text \<open>
  \<^verbatim>\<open>http.Header\<close> is \<^verbatim>\<open>map[string][]string\<close>. \<^verbatim>\<open>Add\<close> and \<^verbatim>\<open>Set\<close> first bring the
  key to its canonical form (\<^verbatim>\<open>textproto.CanonicalMIMEHeaderKey\<close>): when every byte is a
  token byte, the first letter and each letter after a hyphen become upper case and the
  other letters lower case; a key holding any other byte is left as it is.
\<close>

type_synonym http_Header = "string \<rightharpoonup> string list"

definition validHeaderFieldByte :: "char \<Rightarrow> bool" where
  "validHeaderFieldByte c =
     (let n = (of_char c :: nat) in
        (48 \<le> n \<and> n \<le> 57) \<or> (65 \<le> n \<and> n \<le> 90) \<or> (97 \<le> n \<and> n \<le> 122) \<or>
        n \<in> {33, 35, 36, 37, 38, 39, 42, 43, 45, 46, 94, 95, 96, 124, 126})"

fun canonicalise :: "bool \<Rightarrow> string \<Rightarrow> string" where
  "canonicalise upper [] = []"
| "canonicalise upper (c # cs) =
     (let n = (of_char c :: nat);
          c' = (if upper \<and> 97 \<le> n \<and> n \<le> 122 then char_of (n - 32)
                else if \<not> upper \<and> 65 \<le> n \<and> n \<le> 90 then char_of (n + 32)
                else c)
      in c' # canonicalise (c' = CHR ''-'') cs)"

definition CanonicalMIMEHeaderKey :: "string \<Rightarrow> string" where
  "CanonicalMIMEHeaderKey s = (if list_all validHeaderFieldByte s then canonicalise True s else s)"

text \<open>\<^verbatim>\<open>h[key] = append(h[key], value)\<close> on the canonical key.\<close>

definition Header_Add :: "http_Header \<Rightarrow> string \<Rightarrow> string \<Rightarrow> http_Header" where
  "Header_Add h key v =
     (let k = CanonicalMIMEHeaderKey key
      in h(k \<mapsto> (case h k of None \<Rightarrow> [] | Some vs \<Rightarrow> vs) @ [v]))"

text \<open>\<^verbatim>\<open>h[key] = []string{value}\<close> on the canonical key.\<close>

definition Header_Set :: "http_Header \<Rightarrow> string \<Rightarrow> string \<Rightarrow> http_Header" where
  "Header_Set h key v = h(CanonicalMIMEHeaderKey key \<mapsto> [v])"

text \<open>The values a request carries under a header name, in order; none when it is absent.\<close>

definition Header_Values :: "http_Header \<Rightarrow> string \<Rightarrow> string list" where
  "Header_Values h key = (case h (CanonicalMIMEHeaderKey key) of None \<Rightarrow> [] | Some vs \<Rightarrow> vs)"

text \<open>The fields of \<^verbatim>\<open>http.Request\<close> that the file sets: method, URL and header.\<close>

record Request =
  Method :: string
  URL :: string
  Header :: http_Header

text \<open>
  \<^verbatim>\<open>http.NewRequest(method, url, nil)\<close>: a request with an empty header, or an error when
  the URL does not parse. Which strings parse is decided by \<^verbatim>\<open>net/url\<close>, taken here as
  the predicate \<open>parses\<close>.
\<close>

definition NewRequest :: "(string \<Rightarrow> bool) \<Rightarrow> string \<Rightarrow> string \<Rightarrow> string + Request" where
  "NewRequest parses method urlStr =
     (if parses urlStr then Inr \<lparr>Method = method, URL = urlStr, Header = Map.empty\<rparr>
      else Inl (''parse '' @ urlStr))"

subsection \<open>The server record and the package variables\<close>

text \<open>The two package-level overrides; the empty string means "not specified".\<close>

record globals =
  ForceChainedProxyAddr :: string
  ForceAuthToken :: string

record ChainedServerInfo =
  Addr :: string
  Cert :: string
  AuthToken :: string
  Trusted :: bool
  PluggableTransport :: string
  PluggableTransportSettings :: "string \<rightharpoonup> string"
  checkTargets :: siteList

text \<open>\<^verbatim>\<open>1 * time.Hour\<close>, a \<^verbatim>\<open>time.Duration\<close> in nanoseconds.\<close>

definition time_Second :: nat where
  "time_Second = 1000000000"

definition time_Hour :: nat where
  "time_Hour = 60 * (60 * time_Second)"

definition idleTimeout :: nat where
  "idleTimeout = 1 * time_Hour"

definition internalSiteSuffixes :: "string list" where
  "internalSiteSuffixes = [''getlantern.org'', ''getiantem.org'', ''lantern.io'']"

subsection \<open>attachHeaders\<close>

text \<open>
  The request is mutated in place in the source; here the updated request is returned.
  The token is appended with \<^verbatim>\<open>Header.Add\<close>, the device identifier stored with
  \<^verbatim>\<open>Header.Set\<close>.
\<close>

definition attachHeaders :: "globals \<Rightarrow> ChainedServerInfo \<Rightarrow> Request \<Rightarrow> string \<Rightarrow> Request" where
  "attachHeaders g s req deviceID =
     (let authToken = (if ForceAuthToken g \<noteq> '''' then ForceAuthToken g else AuthToken s);
          req1 = (if authToken \<noteq> ''''
                  then req\<lparr>Header := Header_Add (Header req) ''X-LANTERN-AUTH-TOKEN'' authToken\<rparr>
                  else req)
      in req1\<lparr>Header := Header_Set (Header req1) ''X-LANTERN-DEVICE-ID'' deviceID\<rparr>)"

text \<open>
  The effective token of the specification: the forced token when it is specified, the
  server's own otherwise.
\<close>

definition effectiveToken :: "globals \<Rightarrow> ChainedServerInfo \<Rightarrow> string" where
  "effectiveToken g s = (if ForceAuthToken g \<noteq> '''' then ForceAuthToken g else AuthToken s)"

subsection \<open>addCheckTarget\<close>

text \<open>
  The loop over \<open>internalSiteSuffixes\<close> returns from the method at the first suffix the
  host ends with.
\<close>

fun hasInternalSuffix :: "string \<Rightarrow> string list \<Rightarrow> bool" where
  "hasInternalSuffix host [] = False"
| "hasInternalSuffix host (suf # rest) =
     (if HasSuffix host suf then True else hasInternalSuffix host rest)"

definition addCheckTarget :: "ChainedServerInfo \<Rightarrow> string \<Rightarrow> ChainedServerInfo" where
  "addCheckTarget s addr =
     (case SplitHostPort addr of
        Inl e \<Rightarrow> s
      | Inr (host, port) \<Rightarrow>
          if port \<noteq> ''80'' then s
          else if hasInternalSuffix host internalSiteSuffixes then s
          else s\<lparr>checkTargets := add (checkTargets s) addr\<rparr>)"

subsection \<open>Connections, dial functions and the collaborators\<close>

text \<open>
  A connection is either one that a dial function has produced, or such a connection
  wrapped by \<^verbatim>\<open>idletiming.Conn\<close> with its idle timeout in nanoseconds (the wrapper's
  callback closes the connection once it has been idle for that long). Errors are Go
  \<^verbatim>\<open>error\<close> values, kept as their message.
\<close>

datatype conn = RawConn nat | IdleTimingConn conn nat

type_synonym dialFN = "string \<Rightarrow> string \<Rightarrow> string + conn"

text \<open>
  A dial factory is a function of the package that this file calls and does not define.
  Like any function of the package, it can read the package variables, and so can the
  dial function it returns: the factory is given the package variables of the moment of
  the construction, the dial function those of the moment of the call.
\<close>

type_synonym dialFactory =
  "globals \<Rightarrow> ChainedServerInfo \<Rightarrow> string \<Rightarrow> string + (globals \<Rightarrow> dialFN)"

text \<open>\<^verbatim>\<open>chained.Config\<close> as the constructor fills it.\<close>

record chained_Config =
  DialServer :: dialFN
  cfg_Label :: string
  cfg_OnRequest :: "Request \<Rightarrow> Request"

text \<open>
  What \<^verbatim>\<open>rt.RoundTrip(req)\<close> gives: an error of the transport, or a response with its
  status code.
\<close>

datatype roundtrip = TransportError string | Response int

text \<open>
  When the function handed to \<^verbatim>\<open>withtimeout.Do\<close> completes: after so many nanoseconds
  with its result, or never.
\<close>

datatype 'a completion = After nat 'a | Never

text \<open>
  The collaborators that the file calls and does not define: the registry
  \<^verbatim>\<open>pluggableTransports\<close> of dial factories by transport name (a name without an entry
  yields \<^verbatim>\<open>nil\<close>, here \<open>None\<close>; a factory is called with the server and the device
  identifier and returns a dial function or an error), \<^verbatim>\<open>chained.NewDialer\<close>, the URL
  parser behind \<^verbatim>\<open>http.NewRequest\<close>, and the round trip of an \<^verbatim>\<open>http.Transport\<close> that
  dials with the given function, together with the time it takes. The last three belong to
  other packages, which have no access to the variables of this one.
\<close>

record world =
  pluggableTransports :: "string \<rightharpoonup> dialFactory"
  NewDialer :: "chained_Config \<Rightarrow> dialFN"
  urlParses :: "string \<Rightarrow> bool"
  RoundTrip :: "dialFN \<Rightarrow> Request \<Rightarrow> roundtrip completion"

text \<open>
  \<^verbatim>\<open>withtimeout.Do(timeout, fn)\<close> runs \<open>fn\<close> on its own goroutine and waits for its
  result or for the timeout, whichever comes first: the result and \<open>False\<close>, or no result
  and \<open>True\<close>. The goroutine is not stopped by the timeout.
\<close>

definition withtimeout_Do :: "nat \<Rightarrow> 'a completion \<Rightarrow> 'a option \<times> bool" where
  "withtimeout_Do timeout c =
     (case c of
        Never \<Rightarrow> (None, True)
      | After t r \<Rightarrow> if t < timeout then (Some r, False) else (None, True))"

subsection \<open>check\<close>

text \<open>
  The first half of \<^verbatim>\<open>check\<close>, up to the call of \<^verbatim>\<open>attachHeaders\<close>: the target taken
  from the list, the server with that target removed, and the request (or the error of
  \<^verbatim>\<open>http.NewRequest\<close>, at which \<^verbatim>\<open>check\<close> returns \<^verbatim>\<open>false\<close>).
\<close>

definition checkRequest ::
  "world \<Rightarrow> globals \<Rightarrow> ChainedServerInfo \<Rightarrow> string \<Rightarrow> string \<times> ChainedServerInfo \<times> (string + Request)" where
  "checkRequest w g s deviceID =
     (let (checkTarget, q) = get (checkTargets s);
          s1 = s\<lparr>checkTargets := q\<rparr>;
          url = (if checkTarget = '''' then ''http://ping-chained-server''
                 else ''http://'' @ checkTarget @ ''/index.html'')
      in (checkTarget, s1,
          case NewRequest (urlParses w) ''HEAD'' url of
            Inl err \<Rightarrow> Inl err
          | Inr req \<Rightarrow>
              let req1 = (if checkTarget = ''''
                          then req\<lparr>Header := Header_Set (Header req) ''X-Lantern-Ping'' ''small''\<rparr>
                          else req)
              in Inr (attachHeaders g s1 req1 deviceID)))"

text \<open>
  The function handed to \<^verbatim>\<open>withtimeout.Do\<close>, given what the round trip gives: its
  boolean result and the server as it leaves it.
\<close>

definition probe :: "ChainedServerInfo \<Rightarrow> string \<Rightarrow> roundtrip \<Rightarrow> bool \<times> ChainedServerInfo" where
  "probe s checkTarget r =
     (case r of
        TransportError err \<Rightarrow> (False, s)
      | Response StatusCode \<Rightarrow>
          if \<not> (StatusCode < 500) then (False, s)
          else if checkTarget \<noteq> ''''
            then (True, s\<lparr>checkTargets := add (checkTargets s) checkTarget\<rparr>)
          else (True, s))"

text \<open>
  A run of \<^verbatim>\<open>check\<close>: the boolean it returns, the server at the moment it returns, and
  the server once the probe's goroutine has come to its end as well (the same, unless the
  timeout came first and the round trip completed later).
\<close>

record check_result =
  result :: bool
  returned :: ChainedServerInfo
  settled :: ChainedServerInfo

definition check :: "world \<Rightarrow> globals \<Rightarrow> ChainedServerInfo \<Rightarrow> dialFN \<Rightarrow> string \<Rightarrow> check_result" where
  "check w g s dial deviceID =
     (case checkRequest w g s deviceID of
        (checkTarget, s1, Inl err) \<Rightarrow> \<lparr>result = False, returned = s1, settled = s1\<rparr>
      | (checkTarget, s1, Inr req) \<Rightarrow>
          let run = map_completion (probe s1 checkTarget) (RoundTrip w dial req);
              (ok, timedOut) = withtimeout_Do (60 * time_Second) run;
              s2 = (case run of Never \<Rightarrow> s1 | After t (b, s') \<Rightarrow> s')
          in \<lparr>result = (\<not> timedOut \<and> (case ok of Some (b, s') \<Rightarrow> b | None \<Rightarrow> False)),
              returned = (if timedOut then s1 else s2),
              settled = s2\<rparr>)"

subsection \<open>Dialer\<close>

text \<open>
  \<^verbatim>\<open>balancer.Dialer\<close> as the constructor fills it. Its three functions are closures over
  the server (a pointer) and read the package variables when they run, so here they take
  the package variables and the server of the moment of the call.
\<close>

record balancer_Dialer =
  Label :: string
  dialer_Trusted :: bool
  DialFN :: "globals \<Rightarrow> ChainedServerInfo \<Rightarrow> string \<Rightarrow> string \<Rightarrow> (string + conn) \<times> ChainedServerInfo"
  Check :: "globals \<Rightarrow> ChainedServerInfo \<Rightarrow> check_result"
  OnRequest :: "globals \<Rightarrow> ChainedServerInfo \<Rightarrow> Request \<Rightarrow> Request"

text \<open>
  \<^verbatim>\<open>d := chained.NewDialer(ccfg)\<close>, the chained dial path. The hook in \<open>ccfg\<close> calls
  \<^verbatim>\<open>s.attachHeaders(req, deviceID)\<close>.
\<close>

definition chainedDial :: "world \<Rightarrow> dialFN \<Rightarrow> string \<Rightarrow> string \<Rightarrow> globals \<Rightarrow> ChainedServerInfo \<Rightarrow> dialFN" where
  "chainedDial w dial label deviceID g s =
     NewDialer w \<lparr>DialServer = dial, cfg_Label = label,
                  cfg_OnRequest = (\<lambda>req. attachHeaders g s req deviceID)\<rparr>"

text \<open>The body of the \<^verbatim>\<open>DialFN\<close> closure, \<open>d\<close> being the chained dial path.\<close>

definition dialFN_body ::
  "dialFN \<Rightarrow> ChainedServerInfo \<Rightarrow> string \<Rightarrow> string \<Rightarrow> (string + conn) \<times> ChainedServerInfo" where
  "dialFN_body d s network addr =
     (case d network addr of
        Inl err \<Rightarrow> (Inl err, s)
      | Inr c \<Rightarrow> (Inr (IdleTimingConn c idleTimeout), addCheckTarget s addr))"

text \<open>
  \<^verbatim>\<open>fmt.Sprintf("%schained proxy at %s [%v]", trusted, s.Addr, s.PluggableTransport)\<close>,
  where \<open>trusted\<close> is \<^verbatim>\<open>"(trusted) "\<close> for a trusted server and empty otherwise.
\<close>

definition dialerLabel :: "ChainedServerInfo \<Rightarrow> string" where
  "dialerLabel s =
     (let trusted = (if Trusted s then ''(trusted) '' else '''')
      in trusted @ ''chained proxy at '' @ Addr s @ '' ['' @ PluggableTransport s @ '']'')"

text \<open>
  The constructor, run while the package variables are \<open>g\<close>: the error and the server
  untouched, or the dialer and the server with its list of check targets initialised.
\<close>

definition Dialer ::
  "world \<Rightarrow> globals \<Rightarrow> ChainedServerInfo \<Rightarrow> string \<Rightarrow>
     (string + balancer_Dialer) \<times> ChainedServerInfo" where
  "Dialer w g s deviceID =
     (case pluggableTransports w (PluggableTransport s) of
        None \<Rightarrow> (Inl (''No dial factory defined for transport: '' @ PluggableTransport s), s)
      | Some dialFactory \<Rightarrow>
          (case dialFactory g s deviceID of
             Inl err \<Rightarrow> (Inl (''Unable to construct dialFN: '' @ err), s)
           | Inr dial \<Rightarrow>
               let label = dialerLabel s;
                   s' = s\<lparr>checkTargets := initIfNecessary (checkTargets s) 10\<rparr>;
                   d = (\<lambda>g' st. chainedDial w (dial g') label deviceID g' st)
               in (Inr \<lparr>Label = label,
                        dialer_Trusted = Trusted s,
                        DialFN = (\<lambda>g' st. dialFN_body (d g' st) st),
                        Check = (\<lambda>g' st. check w g' st (d g' st) deviceID),
                        OnRequest = (\<lambda>g' st req. attachHeaders g' st req deviceID)\<rparr>,
                   s')))"

subsection \<open>A concrete setting\<close>

text \<open>
  A server without pluggable transport, package variables without override, and
  collaborators that answer by the address: the dial to \<^verbatim>\<open>down.example:80\<close> is refused,
  and the round trip gives 200 for the ping URL, an error for \<^verbatim>\<open>down.example\<close>, 503 for
  \<^verbatim>\<open>busy.example\<close>, 200 after 61 seconds for \<^verbatim>\<open>slow.example\<close>, and 404 after 40
  milliseconds for any other URL.
\<close>

definition exampleServer :: ChainedServerInfo where
  "exampleServer =
     \<lparr>Addr = ''203.0.113.7:443'', Cert = '''', AuthToken = ''T'', Trusted = False,
      PluggableTransport = '''', PluggableTransportSettings = Map.empty,
      checkTargets = \<lparr>ch = None\<rparr>\<rparr>"

definition noOverride :: globals where
  "noOverride = \<lparr>ForceChainedProxyAddr = '''', ForceAuthToken = ''''\<rparr>"

definition exampleDial :: dialFN where
  "exampleDial network addr =
     (if addr = ''down.example:80'' then Inl ''connection refused'' else Inr (RawConn 1))"

definition exampleRoundTrip :: "dialFN \<Rightarrow> Request \<Rightarrow> roundtrip completion" where
  "exampleRoundTrip dial req =
     (if URL req = ''http://ping-chained-server'' then After 5000000 (Response 200)
      else if URL req = ''http://down.example:80/index.html''
        then After 3000000 (TransportError ''connection refused'')
      else if URL req = ''http://busy.example:80/index.html'' then After 9000000 (Response 503)
      else if URL req = ''http://slow.example:80/index.html''
        then After (61 * time_Second) (Response 200)
      else After 40000000 (Response 404))"

definition exampleWorld :: world where
  "exampleWorld =
     \<lparr>pluggableTransports = [[] \<mapsto> (\<lambda>g s deviceID. Inr (\<lambda>g'. exampleDial))],
      NewDialer = DialServer,
      urlParses = (\<lambda>u. CHR '' '' \<notin> set u),
      RoundTrip = exampleRoundTrip\<rparr>"

text \<open>The example server once built, with the given check targets queued.\<close>

definition serverWith :: "string list \<Rightarrow> ChainedServerInfo" where
  "serverWith targets = exampleServer\<lparr>checkTargets := \<lparr>ch = Some \<lparr>cap = 10, buf = targets\<rparr>\<rparr>\<rparr>"

text \<open>
  A proxied request without headers, and one that arrives with a token header already on
  it.
\<close>

definition plainRequest :: Request where
  "plainRequest = \<lparr>Method = ''GET'', URL = ''http://example.com/'', Header = Map.empty\<rparr>"

definition staleRequest :: Request where
  "staleRequest =
     \<lparr>Method = ''GET'', URL = ''http://example.com/'',
      Header = [''X-Lantern-Auth-Token'' \<mapsto> [''stale'']]\<rparr>"

text \<open>The dialer that the constructor builds for the example server.\<close>

definition exampleDialer :: balancer_Dialer where
  "exampleDialer =
     \<lparr>Label = ''chained proxy at 203.0.113.7:443 []'',
      dialer_Trusted = False,
      DialFN = (\<lambda>g st. dialFN_body
                 (chainedDial exampleWorld exampleDial ''chained proxy at 203.0.113.7:443 []''
                    ''device-1'' g st) st),
      Check = (\<lambda>g st. check exampleWorld g st
                 (chainedDial exampleWorld exampleDial ''chained proxy at 203.0.113.7:443 []''
                    ''device-1'' g st) ''device-1''),
      OnRequest = (\<lambda>g st req. attachHeaders g st req ''device-1'')\<rparr>"

subsection \<open>The default dial factory\<close>

text \<open>
  Modelled from the spec: the dial factory registered for the default transport (the empty
  transport name), which this file looks up in the registry and does not define. The
  specification lists the forced chained-proxy address among the overrides that are read
  (the empty string meaning unset), and the comment on the variable says that, if it is
  specified, all proxying goes through this address. So the dial function of this factory
  reaches the proxy at the forced address when one is specified, and at the address of the
  server otherwise. The specification expects the overrides to be set before any dialer is
  constructed, so the factory reads the address when it is called. How the proxy at a given
  address is reached is the business of the transport, taken here as \<open>connect\<close>.
\<close>

definition defaultDialFactory :: "(string \<Rightarrow> dialFN) \<Rightarrow> dialFactory" where
  "defaultDialFactory connect g s deviceID =
     Inr (\<lambda>g'. connect (if ForceChainedProxyAddr g \<noteq> '''' then ForceChainedProxyAddr g
                         else Addr s))"

text \<open>
  A run in which a dialer is constructed for a server and its dial function is called
  once, the package variables being \<open>g\<close> throughout: the error of the construction, or
  what the dial call returns and the server after it.
\<close>

definition dialThrough ::
  "world \<Rightarrow> globals \<Rightarrow> ChainedServerInfo \<Rightarrow> string \<Rightarrow> string \<Rightarrow> string \<Rightarrow>
     string + ((string + conn) \<times> ChainedServerInfo)" where
  "dialThrough w g s deviceID network addr =
     (case Dialer w g s deviceID of
        (Inl err, s') \<Rightarrow> Inl err
      | (Inr bd, s') \<Rightarrow> Inr (DialFN bd g s' network addr))"

text \<open>
  A transport that gets connection 1 from the proxy at the address of the example server
  and connection 2 from the proxy at \<^verbatim>\<open>198.51.100.9:443\<close>, and the example world with
  the default dial factory over this transport in its registry.
\<close>

definition exampleConnect :: "string \<Rightarrow> dialFN" where
  "exampleConnect proxy network addr =
     (if proxy = ''203.0.113.7:443'' then Inr (RawConn 1)
      else if proxy = ''198.51.100.9:443'' then Inr (RawConn 2)
      else Inl ''no route to host'')"

definition forcedWorld :: world where
  "forcedWorld = exampleWorld\<lparr>pluggableTransports := [[] \<mapsto> defaultDialFactory exampleConnect]\<rparr>"

subsection \<open>Properties of siteList\<close>

definition bounded10 :: "siteList \<Rightarrow> bool" where
  "bounded10 q = (case ch q of None \<Rightarrow> False | Some c \<Rightarrow> cap c = 10 \<and> length (buf c) \<le> 10)"

lemma bounded10_fresh: "bounded10 fresh10"
  by (simp add: bounded10_def fresh10_def initIfNecessary_def)

lemma bounded10_add: "bounded10 q \<Longrightarrow> bounded10 (add q a)"
  by (auto simp: bounded10_def add_def split: option.splits)

lemma bounded10_get: "bounded10 q \<Longrightarrow> bounded10 (snd (get q))"
  by (auto simp: bounded10_def get_def split: option.splits list.splits)

lemma bounded10_apply_op: "bounded10 q \<Longrightarrow> bounded10 (apply_op q x)"
  by (cases x) (simp_all add: bounded10_add bounded10_get)

lemma bounded10_apply_ops: "bounded10 q \<Longrightarrow> bounded10 (apply_ops q xs)"
  by (induction xs arbitrary: q) (simp_all add: bounded10_apply_op)

lemma bounded10_entries: "bounded10 q \<Longrightarrow> length (entries q) \<le> 10"
  by (auto simp: bounded10_def entries_def split: option.splits)

lemma bounded10_add_full: "bounded10 q \<Longrightarrow> length (entries q) = 10 \<Longrightarrow> add q a = q"
  by (auto simp: bounded10_def entries_def add_def split: option.splits)

lemma get_empty: "entries q = [] \<Longrightarrow> get q = ('''', q)"
  by (auto simp: entries_def get_def split: option.splits list.splits)

lemma entries_add_room:
  "bounded10 q \<Longrightarrow> length (entries q) < 10 \<Longrightarrow> entries (add q a) = entries q @ [a]"
  by (auto simp: bounded10_def entries_def add_def split: option.splits)

text \<open>
  C6. Whatever sequence of \<open>add\<close> and \<open>get\<close> calls has run on a list initialised with
  capacity 10, the list holds at most 10 entries; an \<open>add\<close> made while 10 entries are
  resident returns the list as it was (the new entry is dropped, the old ones stay, nothing
  is reported); a \<open>get\<close> made while no entry is resident returns the empty string and
  leaves the list as it was, so that it does so again until an \<open>add\<close> is made.
\<close>

theorem siteList_capacity:
  "length (entries (apply_ops fresh10 xs)) \<le> 10 \<and>
   (length (entries (apply_ops fresh10 xs)) = 10 \<longrightarrow>
      add (apply_ops fresh10 xs) a = apply_ops fresh10 xs) \<and>
   (entries (apply_ops fresh10 xs) = [] \<longrightarrow>
      get (apply_ops fresh10 xs) = ('''', apply_ops fresh10 xs) \<and>
      apply_ops fresh10 (xs @ replicate n Get) = apply_ops fresh10 xs)"
proof -
  let ?q = "apply_ops fresh10 xs"
  have b: "bounded10 ?q"
    by (rule bounded10_apply_ops [OF bounded10_fresh])
  have app: "apply_ops q (ys @ zs) = apply_ops (apply_ops q ys) zs" for q ys zs
    by (induction ys arbitrary: q) simp_all
  have rep: "entries q = [] \<Longrightarrow> apply_ops q (replicate n Get) = q" for q
    by (induction n) (simp_all add: get_empty)
  show ?thesis
    using b by (simp add: bounded10_entries bounded10_add_full get_empty app rep)
qed

theorem siteList_capacity_witness:
  "length (entries (apply_ops fresh10 (map Add
      [''a:80'', ''b:80'', ''c:80'', ''d:80'', ''e:80'', ''f:80'', ''g:80'', ''h:80'', ''i:80'', ''j:80'']))) = 10 \<and>
   add (apply_ops fresh10 (map Add
      [''a:80'', ''b:80'', ''c:80'', ''d:80'', ''e:80'', ''f:80'', ''g:80'', ''h:80'', ''i:80'', ''j:80''])) ''k:80'' =
     apply_ops fresh10 (map Add
      [''a:80'', ''b:80'', ''c:80'', ''d:80'', ''e:80'', ''f:80'', ''g:80'', ''h:80'', ''i:80'', ''j:80'']) \<and>
   entries (apply_ops fresh10 [Add ''a:80'', Get]) = [] \<and>
   get (apply_ops fresh10 [Add ''a:80'', Get]) = ([], apply_ops fresh10 [Add ''a:80'', Get]) \<and>
   apply_ops fresh10 ([Add ''a:80'', Get] @ replicate 3 Get) = apply_ops fresh10 [Add ''a:80'', Get]"
proof -
  have full: "length (entries (apply_ops fresh10 (map Add
      [''a:80'', ''b:80'', ''c:80'', ''d:80'', ''e:80'', ''f:80'', ''g:80'', ''h:80'', ''i:80'', ''j:80'']))) = 10"
    by (simp add: fresh10_def initIfNecessary_def entries_def add_def)
  have empty: "entries (apply_ops fresh10 [Add ''a:80'', Get]) = []"
    by (simp add: fresh10_def initIfNecessary_def entries_def add_def get_def)
  show ?thesis
    using full empty
      siteList_capacity [of "map Add
        [''a:80'', ''b:80'', ''c:80'', ''d:80'', ''e:80'', ''f:80'', ''g:80'', ''h:80'', ''i:80'', ''j:80'']" "''k:80''" 0]
      siteList_capacity [of "[Add ''a:80'', Get]" "''k:80''" 3]
    by blast
qed

subsection \<open>Properties of attachHeaders\<close>

lemma canon_auth: "CanonicalMIMEHeaderKey ''X-LANTERN-AUTH-TOKEN'' = ''X-Lantern-Auth-Token''"
  by code_simp

lemma canon_device: "CanonicalMIMEHeaderKey ''X-LANTERN-DEVICE-ID'' = ''X-Lantern-Device-Id''"
  by code_simp

lemma canon_ping: "CanonicalMIMEHeaderKey ''X-Lantern-Ping'' = ''X-Lantern-Ping''"
  by code_simp

lemma Header_attachHeaders:
  "Header (attachHeaders g s req deviceID) =
     (if effectiveToken g s = '''' then Header req
      else (Header req)(''X-Lantern-Auth-Token'' \<mapsto>
             Header_Values (Header req) ''X-LANTERN-AUTH-TOKEN'' @ [effectiveToken g s]))
     (''X-Lantern-Device-Id'' \<mapsto> [deviceID])"
  by (simp add: attachHeaders_def effectiveToken_def Header_Add_def Header_Set_def
      Header_Values_def canon_auth canon_device Let_def)

lemma attachHeaders_Method: "Method (attachHeaders g s req deviceID) = Method req"
  by (simp add: attachHeaders_def Let_def)

lemma attachHeaders_URL: "URL (attachHeaders g s req deviceID) = URL req"
  by (simp add: attachHeaders_def Let_def)

lemma attachHeaders_ping:
  "Header (attachHeaders g s req deviceID) ''X-Lantern-Ping'' = Header req ''X-Lantern-Ping''"
  by (simp add: Header_attachHeaders)

text \<open>
  C2, as the code has it. For every request and device identifier, \<open>attachHeaders\<close>
  leaves exactly the device identifier under X-LANTERN-DEVICE-ID. The effective token is
  the forced token when that is not empty and the server's token otherwise. A non-empty
  effective token is appended to the values the request already carries under
  X-LANTERN-AUTH-TOKEN (so it is the only value when the request carried none); with an
  empty effective token nothing is attached, and the header is left as it came: absent
  if the request did not carry it.
\<close>

theorem attachHeaders_headers:
  "Header_Values (Header (attachHeaders g s req deviceID)) ''X-LANTERN-DEVICE-ID'' = [deviceID] \<and>
   effectiveToken g s = (if ForceAuthToken g \<noteq> '''' then ForceAuthToken g else AuthToken s) \<and>
   Header_Values (Header (attachHeaders g s req deviceID)) ''X-LANTERN-AUTH-TOKEN'' =
     Header_Values (Header req) ''X-LANTERN-AUTH-TOKEN'' @
       (if effectiveToken g s = '''' then [] else [effectiveToken g s]) \<and>
   (effectiveToken g s = '''' \<longrightarrow>
      Header (attachHeaders g s req deviceID) ''X-Lantern-Auth-Token'' =
        Header req ''X-Lantern-Auth-Token'')"
  by (simp add: Header_attachHeaders Header_Values_def canon_auth canon_device effectiveToken_def)

theorem attachHeaders_headers_witness:
  "effectiveToken noOverride (exampleServer\<lparr>AuthToken := ''''\<rparr>) = '''' \<and>
   Header (attachHeaders noOverride (exampleServer\<lparr>AuthToken := ''''\<rparr>) plainRequest ''device-1'')
     ''X-Lantern-Auth-Token'' = None \<and>
   Header_Values (Header (attachHeaders noOverride exampleServer plainRequest ''device-1''))
     ''X-LANTERN-AUTH-TOKEN'' = [''T''] \<and>
   Header_Values (Header (attachHeaders (noOverride\<lparr>ForceAuthToken := ''O''\<rparr>) exampleServer
     plainRequest ''device-1'')) ''X-LANTERN-AUTH-TOKEN'' = [''O'']"
  using attachHeaders_headers [of noOverride "exampleServer\<lparr>AuthToken := ''''\<rparr>" plainRequest "''device-1''"]
    attachHeaders_headers [of noOverride exampleServer plainRequest "''device-1''"]
    attachHeaders_headers [of "noOverride\<lparr>ForceAuthToken := ''O''\<rparr>" exampleServer plainRequest "''device-1''"]
  by (simp add: noOverride_def exampleServer_def plainRequest_def Header_Values_def canon_auth)

text \<open>
  C2 as it is written fails on a request that already carries the token header: with an
  empty effective token the header is still on the request after \<open>attachHeaders\<close>.
\<close>

theorem attachHeaders_absent_counterexample:
  "effectiveToken noOverride (exampleServer\<lparr>AuthToken := ''''\<rparr>) = '''' \<and>
   Header (attachHeaders noOverride (exampleServer\<lparr>AuthToken := ''''\<rparr>) staleRequest ''device-1'')
     (CanonicalMIMEHeaderKey ''X-LANTERN-AUTH-TOKEN'') = Some [''stale'']"
  by (simp add: Header_attachHeaders effectiveToken_def noOverride_def exampleServer_def
      staleRequest_def canon_auth)

text \<open>
  C10, as the code has it. With a non-empty effective token, a second application of
  \<open>attachHeaders\<close> changes nothing under X-LANTERN-DEVICE-ID, which holds the device
  identifier exactly once, and appends the token once more under X-LANTERN-AUTH-TOKEN:
  one application leaves the values the request came with followed by the token, two
  applications leave them followed by the token twice. These are two values when the
  request came without the header, and two more than it came with in general.
\<close>

theorem attachHeaders_twice:
  assumes "effectiveToken g s \<noteq> ''''"
  shows "Header_Values (Header (attachHeaders g s req deviceID)) ''X-LANTERN-DEVICE-ID'' = [deviceID] \<and>
     Header_Values (Header (attachHeaders g s (attachHeaders g s req deviceID) deviceID))
        ''X-LANTERN-DEVICE-ID'' = [deviceID] \<and>
     Header_Values (Header (attachHeaders g s req deviceID)) ''X-LANTERN-AUTH-TOKEN'' =
        Header_Values (Header req) ''X-LANTERN-AUTH-TOKEN'' @ [effectiveToken g s] \<and>
     Header_Values (Header (attachHeaders g s (attachHeaders g s req deviceID) deviceID))
        ''X-LANTERN-AUTH-TOKEN'' =
        Header_Values (Header req) ''X-LANTERN-AUTH-TOKEN'' @ [effectiveToken g s, effectiveToken g s] \<and>
     length (Header_Values (Header (attachHeaders g s (attachHeaders g s req deviceID) deviceID))
        ''X-LANTERN-AUTH-TOKEN'') =
        length (Header_Values (Header req) ''X-LANTERN-AUTH-TOKEN'') + 2"
  using assms
  by (simp add: Header_attachHeaders Header_Values_def canon_auth canon_device)

theorem attachHeaders_twice_witness:
  "effectiveToken noOverride exampleServer \<noteq> '''' \<and>
   Header_Values (Header (attachHeaders noOverride exampleServer
       (attachHeaders noOverride exampleServer plainRequest ''device-1'') ''device-1''))
     ''X-LANTERN-DEVICE-ID'' = [''device-1''] \<and>
   Header_Values (Header (attachHeaders noOverride exampleServer
       (attachHeaders noOverride exampleServer plainRequest ''device-1'') ''device-1''))
     ''X-LANTERN-AUTH-TOKEN'' = [''T'', ''T'']"
proof -
  have tok: "effectiveToken noOverride exampleServer = ''T''"
    by (simp add: effectiveToken_def noOverride_def exampleServer_def)
  have none: "Header_Values (Header plainRequest) ''X-LANTERN-AUTH-TOKEN'' = []"
    by (simp add: Header_Values_def plainRequest_def)
  show ?thesis
    using attachHeaders_twice [of noOverride exampleServer plainRequest "''device-1''"]
    by (simp add: tok none)
qed

text \<open>
  C10 as it is written fails on a request that already carries a token: two applications
  leave three values under X-LANTERN-AUTH-TOKEN, not two.
\<close>

theorem attachHeaders_twice_counterexample:
  "effectiveToken noOverride exampleServer \<noteq> '''' \<and>
   Header_Values (Header (attachHeaders noOverride exampleServer
       (attachHeaders noOverride exampleServer staleRequest ''device-1'') ''device-1''))
     ''X-LANTERN-AUTH-TOKEN'' = [''stale'', ''T'', ''T'']"
  by (simp add: Header_attachHeaders Header_Values_def effectiveToken_def noOverride_def
      exampleServer_def staleRequest_def canon_auth)

subsection \<open>Properties of check\<close>

lemma checkRequest_pop:
  "checkRequest w g s deviceID = (t, s1, r) \<Longrightarrow>
     t = fst (get (checkTargets s)) \<and> s1 = s\<lparr>checkTargets := snd (get (checkTargets s))\<rparr>"
  by (auto simp: checkRequest_def Let_def split: prod.splits)

lemma checkRequest_Inr:
  "checkRequest w g s deviceID = (t, s1, Inr req) \<Longrightarrow>
     Method req = ''HEAD'' \<and>
     URL req = (if t = '''' then ''http://ping-chained-server'' else ''http://'' @ t @ ''/index.html'') \<and>
     Header req ''X-Lantern-Ping'' = (if t = '''' then Some [''small''] else None)"
  by (auto simp: checkRequest_def Let_def NewRequest_def attachHeaders_Method attachHeaders_URL
      attachHeaders_ping Header_Set_def canon_ping split: prod.splits if_splits)

lemma check_Inl:
  "checkRequest w g s deviceID = (t, s1, Inl e) \<Longrightarrow>
     check w g s dial deviceID = \<lparr>result = False, returned = s1, settled = s1\<rparr>"
  by (simp add: check_def)

lemma check_Never:
  "checkRequest w g s deviceID = (t, s1, Inr req) \<Longrightarrow> RoundTrip w dial req = Never \<Longrightarrow>
     check w g s dial deviceID = \<lparr>result = False, returned = s1, settled = s1\<rparr>"
  by (simp add: check_def withtimeout_Do_def)

lemma check_After:
  "checkRequest w g s deviceID = (t, s1, Inr req) \<Longrightarrow> RoundTrip w dial req = After n r \<Longrightarrow>
     check w g s dial deviceID =
       \<lparr>result = (n < 60 * time_Second \<and> fst (probe s1 t r)),
        returned = (if n < 60 * time_Second then snd (probe s1 t r) else s1),
        settled = snd (probe s1 t r)\<rparr>"
  by (simp add: check_def withtimeout_Do_def Let_def split: prod.splits)

lemma example_checkRequest:
  "checkRequest exampleWorld g (serverWith (t # ts)) deviceID =
     (t, serverWith ts,
      if t = [] then Inr (attachHeaders g (serverWith ts)
             \<lparr>Method = ''HEAD'', URL = ''http://ping-chained-server'',
              Header = [''X-Lantern-Ping'' \<mapsto> [''small'']]\<rparr> deviceID)
      else if CHR '' '' \<in> set t then Inl (''parse '' @ ''http://'' @ t @ ''/index.html'')
      else Inr (attachHeaders g (serverWith ts)
             \<lparr>Method = ''HEAD'', URL = ''http://'' @ t @ ''/index.html'', Header = Map.empty\<rparr> deviceID))"
  by (simp add: checkRequest_def serverWith_def get_def NewRequest_def exampleWorld_def
      Header_Set_def canon_ping Let_def)

lemma example_checkRequest_Nil:
  "checkRequest exampleWorld g (serverWith []) deviceID =
     ([], serverWith [],
      Inr (attachHeaders g (serverWith [])
             \<lparr>Method = ''HEAD'', URL = ''http://ping-chained-server'',
              Header = [''X-Lantern-Ping'' \<mapsto> [''small'']]\<rparr> deviceID))"
  by (simp add: checkRequest_def serverWith_def get_def NewRequest_def exampleWorld_def
      Header_Set_def canon_ping Let_def)

lemma example_RoundTrip:
  "RoundTrip exampleWorld dial (attachHeaders g s req deviceID) = exampleRoundTrip dial req"
  by (simp add: exampleWorld_def exampleRoundTrip_def attachHeaders_URL)

text \<open>
  C1. In a run of \<open>check\<close> that gets as far as the round trip (the request could be
  built): a transport error gives \<open>False\<close>; a response below 500 that arrives within the
  60 seconds gives \<open>True\<close>; a response of 500 or above gives \<open>False\<close>; and when the 60
  seconds are exceeded, or the round trip never completes, the result is \<open>False\<close>
  whatever the round trip gives in the end.
\<close>

theorem check_classification:
  assumes "checkRequest w g s deviceID = (t, s1, Inr req)"
  shows "(RoundTrip w dial req = After n (TransportError e) \<longrightarrow> \<not> result (check w g s dial deviceID)) \<and>
     (RoundTrip w dial req = After n (Response c) \<and> n < 60 * time_Second \<and> c < 500 \<longrightarrow>
        result (check w g s dial deviceID)) \<and>
     (RoundTrip w dial req = After n (Response c) \<and> 500 \<le> c \<longrightarrow>
        \<not> result (check w g s dial deviceID)) \<and>
     (RoundTrip w dial req = Never \<or> RoundTrip w dial req = After n r \<and> 60 * time_Second < n \<longrightarrow>
        \<not> result (check w g s dial deviceID))"
  using assms by (auto simp: check_After check_Never probe_def)

theorem check_classification_witness:
  "\<not> result (check exampleWorld noOverride (serverWith [''down.example:80'']) exampleDial ''device-1'') \<and>
   result (check exampleWorld noOverride (serverWith []) exampleDial ''device-1'') \<and>
   result (check exampleWorld noOverride (serverWith [''example.com:80'']) exampleDial ''device-1'') \<and>
   \<not> result (check exampleWorld noOverride (serverWith [''busy.example:80'']) exampleDial ''device-1'') \<and>
   \<not> result (check exampleWorld noOverride (serverWith [''slow.example:80'']) exampleDial ''device-1'')"
proof -
  note c = check_classification [where w = exampleWorld and g = noOverride and dial = exampleDial
      and deviceID = "''device-1''"]
  have down: "\<not> result (check exampleWorld noOverride (serverWith [''down.example:80'']) exampleDial ''device-1'')"
    using c [where s = "serverWith [''down.example:80'']" and n = 3000000 and e = "''connection refused''",
        OF example_checkRequest [THEN trans]]
    by (simp add: example_RoundTrip exampleRoundTrip_def)
  have ping: "result (check exampleWorld noOverride (serverWith []) exampleDial ''device-1'')"
    using c [where s = "serverWith []" and n = 5000000 and c = 200, OF example_checkRequest_Nil]
    by (simp add: example_RoundTrip exampleRoundTrip_def time_Second_def)
  have ok404: "result (check exampleWorld noOverride (serverWith [''example.com:80'']) exampleDial ''device-1'')"
    using c [where s = "serverWith [''example.com:80'']" and n = 40000000 and c = 404,
        OF example_checkRequest [THEN trans]]
    by (simp add: example_RoundTrip exampleRoundTrip_def time_Second_def)
  have busy: "\<not> result (check exampleWorld noOverride (serverWith [''busy.example:80'']) exampleDial ''device-1'')"
    using c [where s = "serverWith [''busy.example:80'']" and n = 9000000 and c = 503,
        OF example_checkRequest [THEN trans]]
    by (simp add: example_RoundTrip exampleRoundTrip_def)
  have slow: "\<not> result (check exampleWorld noOverride (serverWith [''slow.example:80'']) exampleDial ''device-1'')"
    using c [where s = "serverWith [''slow.example:80'']" and n = "61 * time_Second" and r = "Response 200",
        OF example_checkRequest [THEN trans]]
    by (simp add: example_RoundTrip exampleRoundTrip_def time_Second_def)
  from down ping ok404 busy slow show ?thesis by blast
qed

lemma probe_success:
  "c < 500 \<Longrightarrow> t \<noteq> [] \<Longrightarrow>
     probe s1 t (Response c) = (True, s1\<lparr>checkTargets := add (checkTargets s1) t\<rparr>)"
  by (simp add: probe_def)

lemma probe_no_push: "t = [] \<or> 500 \<le> c \<Longrightarrow> snd (probe s1 t (Response c)) = s1"
  by (auto simp: probe_def)

lemma probe_error: "probe s1 t (TransportError e) = (False, s1)"
  by (simp add: probe_def)

lemma probe_synthetic: "snd (probe s1 [] x) = s1"
  by (simp add: probe_def split: roundtrip.splits)

lemma example_checkRequest_real:
  "t \<noteq> [] \<Longrightarrow> CHR '' '' \<notin> set t \<Longrightarrow>
   checkRequest exampleWorld g (serverWith [t]) deviceID =
     (t, serverWith [],
      Inr (attachHeaders g (serverWith [])
             \<lparr>Method = ''HEAD'', URL = ''http://'' @ t @ ''/index.html'', Header = Map.empty\<rparr> deviceID))"
  by (simp add: example_checkRequest)

lemma serverWith_add:
  "length ts < 10 \<Longrightarrow>
     (serverWith ts)\<lparr>checkTargets := add (checkTargets (serverWith ts)) t\<rparr> = serverWith (ts @ [t])"
  by (simp add: serverWith_def add_def)

text \<open>
  C7. A run of \<open>check\<close> pops its target \<open>t\<close> from the list. When \<open>t\<close> is a real target
  and the round trip gives a status below 500, \<open>add\<close> is called with \<open>t\<close> on the list
  the pop has left: this is the state once the probe has run to its end, and the state when
  \<open>check\<close> returns if the probe was in time. When the target is the synthetic one, the
  request could not be built, or the round trip gives an error, a status of 500 or above,
  or nothing at all, the list stays as the pop has left it.
\<close>

theorem check_pushes_back:
  assumes "checkRequest w g s deviceID = (t, s1, r)"
  shows "t = fst (get (checkTargets s)) \<and> s1 = s\<lparr>checkTargets := snd (get (checkTargets s))\<rparr> \<and>
     (r = Inr req \<and> RoundTrip w dial req = After n (Response c) \<and> c < 500 \<and> t \<noteq> '''' \<longrightarrow>
        settled (check w g s dial deviceID) = s1\<lparr>checkTargets := add (checkTargets s1) t\<rparr> \<and>
        (n < 60 * time_Second \<longrightarrow>
           returned (check w g s dial deviceID) = s1\<lparr>checkTargets := add (checkTargets s1) t\<rparr>)) \<and>
     (t = '''' \<or> (\<exists>e. r = Inl e) \<or>
      (\<exists>q. r = Inr q \<and>
         (RoundTrip w dial q = Never \<or>
          (\<exists>m e. RoundTrip w dial q = After m (TransportError e)) \<or>
          (\<exists>m k. RoundTrip w dial q = After m (Response k) \<and> 500 \<le> k))) \<longrightarrow>
        settled (check w g s dial deviceID) = s1 \<and> returned (check w g s dial deviceID) = s1)"
proof -
  have pop: "t = fst (get (checkTargets s)) \<and> s1 = s\<lparr>checkTargets := snd (get (checkTargets s))\<rparr>"
    using assms by (rule checkRequest_pop)
  have push: "settled (check w g s dial deviceID) = s1\<lparr>checkTargets := add (checkTargets s1) t\<rparr> \<and>
        (n < 60 * time_Second \<longrightarrow>
           returned (check w g s dial deviceID) = s1\<lparr>checkTargets := add (checkTargets s1) t\<rparr>)"
    if "r = Inr req" "RoundTrip w dial req = After n (Response c)" "c < 500" "t \<noteq> ''''"
    using assms that by (simp add: check_After probe_success)
  have keep_Inl: "settled (check w g s dial deviceID) = s1 \<and> returned (check w g s dial deviceID) = s1"
    if "r = Inl e" for e
    using assms that by (simp add: check_Inl)
  have keep_Inr: "settled (check w g s dial deviceID) = s1 \<and> returned (check w g s dial deviceID) = s1"
    if "r = Inr q" and
      "t = '''' \<or> RoundTrip w dial q = Never \<or>
       (\<exists>m e. RoundTrip w dial q = After m (TransportError e)) \<or>
       (\<exists>m k. RoundTrip w dial q = After m (Response k) \<and> 500 \<le> k)" for q
  proof (cases "RoundTrip w dial q")
    case Never
    with assms that(1) show ?thesis by (simp add: check_Never)
  next
    case (After m x)
    have "snd (probe s1 t x) = s1"
      using that(2) After by (cases x) (auto simp: probe_error probe_no_push probe_synthetic)
    with assms that(1) After show ?thesis by (simp add: check_After)
  qed
  have keep: "settled (check w g s dial deviceID) = s1 \<and> returned (check w g s dial deviceID) = s1"
    if "t = '''' \<or> (\<exists>e. r = Inl e) \<or>
      (\<exists>q. r = Inr q \<and>
         (RoundTrip w dial q = Never \<or>
          (\<exists>m e. RoundTrip w dial q = After m (TransportError e)) \<or>
          (\<exists>m k. RoundTrip w dial q = After m (Response k) \<and> 500 \<le> k)))"
  proof (cases r)
    case (Inl e)
    then show ?thesis by (rule keep_Inl)
  next
    case (Inr q)
    with that show ?thesis by (intro keep_Inr [of q]) auto
  qed
  from pop push keep show ?thesis by blast
qed

theorem check_pushes_back_witness:
  "settled (check exampleWorld noOverride (serverWith [''example.com:80'']) exampleDial ''device-1'') =
     serverWith [''example.com:80''] \<and>
   returned (check exampleWorld noOverride (serverWith [''example.com:80'']) exampleDial ''device-1'') =
     serverWith [''example.com:80''] \<and>
   settled (check exampleWorld noOverride (serverWith [''busy.example:80'']) exampleDial ''device-1'') =
     serverWith [] \<and>
   settled (check exampleWorld noOverride (serverWith []) exampleDial ''device-1'') = serverWith [] \<and>
   settled (check exampleWorld noOverride (serverWith [''slow.example:80'']) exampleDial ''device-1'') =
     serverWith [''slow.example:80'']"
proof -
  have good: "settled (check exampleWorld noOverride (serverWith [''example.com:80'']) exampleDial ''device-1'') =
       serverWith [''example.com:80''] \<and>
     returned (check exampleWorld noOverride (serverWith [''example.com:80'']) exampleDial ''device-1'') =
       serverWith [''example.com:80'']"
    using check_pushes_back [OF example_checkRequest_real,
        where t = "''example.com:80''" and n = 40000000 and c = 404 and dial = exampleDial
          and g = noOverride and deviceID = "''device-1''" and req = "attachHeaders noOverride (serverWith [])
            \<lparr>Method = ''HEAD'', URL = ''http://example.com:80/index.html'', Header = Map.empty\<rparr>
            ''device-1''"]
    by (simp add: example_RoundTrip exampleRoundTrip_def time_Second_def serverWith_add)
  have busy: "settled (check exampleWorld noOverride (serverWith [''busy.example:80'']) exampleDial ''device-1'') =
       serverWith []"
    using check_pushes_back [OF example_checkRequest_real,
        where t = "''busy.example:80''" and dial = exampleDial
          and g = noOverride and deviceID = "''device-1''"]
    by (simp add: example_RoundTrip exampleRoundTrip_def)
  have ping: "settled (check exampleWorld noOverride (serverWith []) exampleDial ''device-1'') = serverWith []"
    using check_pushes_back [OF example_checkRequest_Nil,
        where dial = exampleDial and g = noOverride and deviceID = "''device-1''"]
    by simp
  have slow: "settled (check exampleWorld noOverride (serverWith [''slow.example:80'']) exampleDial ''device-1'') =
       serverWith [''slow.example:80'']"
    using check_pushes_back [OF example_checkRequest_real,
        where t = "''slow.example:80''" and n = "61 * time_Second" and c = 200 and dial = exampleDial
          and g = noOverride and deviceID = "''device-1''" and req = "attachHeaders noOverride (serverWith [])
            \<lparr>Method = ''HEAD'', URL = ''http://slow.example:80/index.html'', Header = Map.empty\<rparr>
            ''device-1''"]
    by (simp add: example_RoundTrip exampleRoundTrip_def serverWith_add)
  from good busy ping slow show ?thesis by blast
qed

lemma checkRequest_built:
  "checkRequest w g s deviceID = (t, s1, r) \<Longrightarrow>
     (\<exists>q. r = Inr q) =
       urlParses w (if t = [] then ''http://ping-chained-server'' else ''http://'' @ t @ ''/index.html'')"
  by (auto simp: checkRequest_def Let_def NewRequest_def split: prod.splits if_splits)

lemma get_removes: "get q = (t, q') \<Longrightarrow> t \<noteq> [] \<Longrightarrow> entries q = t # entries q'"
  by (auto simp: get_def entries_def split: option.splits list.splits)

text \<open>
  C8. A run of \<open>check\<close> takes its target \<open>t\<close> by a \<open>get\<close> on the list of check
  targets: a real target was the oldest entry of the list and is no longer in the list
  that the run goes on with, which is the list of the server when \<open>check\<close> returns unless
  the probe has pushed the target back. The request that \<open>check\<close> builds is a HEAD
  request. When the \<open>get\<close> gives the empty string, the URL is
  \<^verbatim>\<open>http://ping-chained-server\<close> and the request carries X-Lantern-Ping (with the value
  \<^verbatim>\<open>small\<close>); when it gives a target \<open>t\<close>, the URL is \<^verbatim>\<open>http://t/index.html\<close> and the
  request carries no X-Lantern-Ping. The result of \<open>check\<close> and the server it leaves are
  those of the round trip of this request. The request is built whenever its URL parses;
  when it is not, \<open>check\<close> returns \<open>False\<close> and the target stays removed.
\<close>

theorem check_probe_request:
  assumes "checkRequest w g s deviceID = (t, s1, r)"
  shows "(t, checkTargets s1) = get (checkTargets s) \<and>
     s1 = s\<lparr>checkTargets := snd (get (checkTargets s))\<rparr> \<and>
     (t \<noteq> '''' \<longrightarrow> entries (checkTargets s) = t # entries (checkTargets s1)) \<and>
     (\<exists>q. r = Inr q) =
       urlParses w (if t = '''' then ''http://ping-chained-server'' else ''http://'' @ t @ ''/index.html'') \<and>
     (r = Inl e \<longrightarrow>
        check w g s dial deviceID = \<lparr>result = False, returned = s1, settled = s1\<rparr>) \<and>
     (r = Inr req \<longrightarrow>
        Method req = ''HEAD'' \<and>
        (t = '''' \<longrightarrow> URL req = ''http://ping-chained-server'' \<and>
           Header_Values (Header req) ''X-Lantern-Ping'' = [''small'']) \<and>
        (t \<noteq> '''' \<longrightarrow> URL req = ''http://'' @ t @ ''/index.html'' \<and>
           Header req (CanonicalMIMEHeaderKey ''X-Lantern-Ping'') = None) \<and>
        result (check w g s dial deviceID) =
          (case RoundTrip w dial req of
             Never \<Rightarrow> False
           | After n x \<Rightarrow> n < 60 * time_Second \<and> fst (probe s1 t x)) \<and>
        returned (check w g s dial deviceID) =
          (case RoundTrip w dial req of
             Never \<Rightarrow> s1
           | After n x \<Rightarrow> if n < 60 * time_Second then snd (probe s1 t x) else s1) \<and>
        settled (check w g s dial deviceID) =
          (case RoundTrip w dial req of
             Never \<Rightarrow> s1
           | After n x \<Rightarrow> snd (probe s1 t x)) \<and>
        (returned (check w g s dial deviceID) = s1 \<or>
         returned (check w g s dial deviceID) = s1\<lparr>checkTargets := add (checkTargets s1) t\<rparr>))"
proof -
  have pop: "(t, checkTargets s1) = get (checkTargets s)"
    and s1: "s1 = s\<lparr>checkTargets := snd (get (checkTargets s))\<rparr>"
    using checkRequest_pop [OF assms] by simp_all
  have removed: "entries (checkTargets s) = t # entries (checkTargets s1)" if "t \<noteq> ''''"
    using get_removes [OF pop [symmetric] that] .
  have built: "(\<exists>q. r = Inr q) =
       urlParses w (if t = '''' then ''http://ping-chained-server'' else ''http://'' @ t @ ''/index.html'')"
    using assms by (rule checkRequest_built)
  have failed: "check w g s dial deviceID = \<lparr>result = False, returned = s1, settled = s1\<rparr>"
    if "r = Inl e"
    using assms that by (simp add: check_Inl)
  have req: "Method req = ''HEAD'' \<and>
        (t = '''' \<longrightarrow> URL req = ''http://ping-chained-server'' \<and>
           Header_Values (Header req) ''X-Lantern-Ping'' = [''small'']) \<and>
        (t \<noteq> '''' \<longrightarrow> URL req = ''http://'' @ t @ ''/index.html'' \<and>
           Header req (CanonicalMIMEHeaderKey ''X-Lantern-Ping'') = None)"
    if "r = Inr req"
    using checkRequest_Inr [of w g s deviceID t s1 req] assms that
    by (simp add: Header_Values_def canon_ping)
  have res: "result (check w g s dial deviceID) =
          (case RoundTrip w dial req of
             Never \<Rightarrow> False
           | After n x \<Rightarrow> n < 60 * time_Second \<and> fst (probe s1 t x))"
    and ret: "returned (check w g s dial deviceID) =
          (case RoundTrip w dial req of
             Never \<Rightarrow> s1
           | After n x \<Rightarrow> if n < 60 * time_Second then snd (probe s1 t x) else s1)"
    and set: "settled (check w g s dial deviceID) =
          (case RoundTrip w dial req of
             Never \<Rightarrow> s1
           | After n x \<Rightarrow> snd (probe s1 t x))"
    if "r = Inr req"
    using assms that
    by (cases "RoundTrip w dial req"; simp add: check_After check_Never)+
  have two: "snd (probe s1 t x) = s1 \<or> snd (probe s1 t x) = s1\<lparr>checkTargets := add (checkTargets s1) t\<rparr>"
    for x
    by (simp add: probe_def split: roundtrip.splits)
  have ret2: "returned (check w g s dial deviceID) = s1 \<or>
         returned (check w g s dial deviceID) = s1\<lparr>checkTargets := add (checkTargets s1) t\<rparr>"
    if "r = Inr req"
    using ret [OF that] two by (cases "RoundTrip w dial req") (auto split: if_splits)
  from pop s1 removed built failed req res ret set ret2 show ?thesis by blast
qed

theorem check_probe_request_witness:
  "get (checkTargets (serverWith [])) = ('''', checkTargets (serverWith [])) \<and>
   get (checkTargets (serverWith [''example.com:80''])) =
     (''example.com:80'', checkTargets (serverWith [])) \<and>
   (\<exists>req. snd (snd (checkRequest exampleWorld noOverride (serverWith []) ''device-1'')) = Inr req \<and>
      Method req = ''HEAD'' \<and> URL req = ''http://ping-chained-server'' \<and>
      Header_Values (Header req) ''X-Lantern-Ping'' = [''small'']) \<and>
   (\<exists>req. snd (snd (checkRequest exampleWorld noOverride (serverWith [''example.com:80''])
        ''device-1'')) = Inr req \<and>
      Method req = ''HEAD'' \<and> URL req = ''http://example.com:80/index.html'' \<and>
      Header req ''X-Lantern-Ping'' = None) \<and>
   check exampleWorld noOverride (serverWith []) exampleDial ''device-1'' =
     \<lparr>result = True, returned = serverWith [], settled = serverWith []\<rparr> \<and>
   check exampleWorld noOverride (serverWith [''busy.example:80'', ''example.com:80'']) exampleDial
       ''device-1'' =
     \<lparr>result = False, returned = serverWith [''example.com:80''],
      settled = serverWith [''example.com:80'']\<rparr> \<and>
   check exampleWorld noOverride (serverWith [''bad host:80'']) exampleDial ''device-1'' =
     \<lparr>result = False, returned = serverWith [], settled = serverWith []\<rparr>"
proof -
  let ?ping = "attachHeaders noOverride (serverWith [])
      \<lparr>Method = ''HEAD'', URL = ''http://ping-chained-server'',
       Header = [''X-Lantern-Ping'' \<mapsto> [''small'']]\<rparr> ''device-1''"
  let ?real = "attachHeaders noOverride (serverWith [])
      \<lparr>Method = ''HEAD'', URL = ''http://example.com:80/index.html'', Header = Map.empty\<rparr>
      ''device-1''"
  let ?busy = "attachHeaders noOverride (serverWith [''example.com:80''])
      \<lparr>Method = ''HEAD'', URL = ''http://busy.example:80/index.html'', Header = Map.empty\<rparr>
      ''device-1''"
  have cr0: "checkRequest exampleWorld noOverride (serverWith []) ''device-1'' =
      ('''', serverWith [], Inr ?ping)"
    by (rule example_checkRequest_Nil)
  have cr1: "checkRequest exampleWorld noOverride (serverWith [''example.com:80'']) ''device-1'' =
      (''example.com:80'', serverWith [], Inr ?real)"
    by (simp add: example_checkRequest_real)
  have cr2: "checkRequest exampleWorld noOverride (serverWith [''busy.example:80'', ''example.com:80''])
        ''device-1'' = (''busy.example:80'', serverWith [''example.com:80''], Inr ?busy)"
    by (simp add: example_checkRequest)
  have cr3: "checkRequest exampleWorld noOverride (serverWith [''bad host:80'']) ''device-1'' =
      (''bad host:80'', serverWith [], Inl ''parse http://bad host:80/index.html'')"
    by (simp add: example_checkRequest)
  note t0 = check_probe_request [OF cr0, where dial = exampleDial and req = ?ping]
  note t1 = check_probe_request [OF cr1, where dial = exampleDial and req = ?real]
  note t2 = check_probe_request [OF cr2, where dial = exampleDial and req = ?busy]
  note t3 = check_probe_request [OF cr3, where dial = exampleDial
      and e = "''parse http://bad host:80/index.html''"]
  note built0 = t0 [THEN conjunct2, THEN conjunct2, THEN conjunct2, THEN conjunct2, THEN conjunct2]
  note built1 = t1 [THEN conjunct2, THEN conjunct2, THEN conjunct2, THEN conjunct2, THEN conjunct2]
  note built2 = t2 [THEN conjunct2, THEN conjunct2, THEN conjunct2, THEN conjunct2, THEN conjunct2]
  note failed3 = t3 [THEN conjunct2, THEN conjunct2, THEN conjunct2, THEN conjunct2, THEN conjunct1]
  have pop0: "get (checkTargets (serverWith [])) = ('''', checkTargets (serverWith []))"
    by (rule t0 [THEN conjunct1, symmetric])
  have pop1: "get (checkTargets (serverWith [''example.com:80''])) =
      (''example.com:80'', checkTargets (serverWith []))"
    by (rule t1 [THEN conjunct1, symmetric])
  have req0: "Method ?ping = ''HEAD'' \<and> URL ?ping = ''http://ping-chained-server'' \<and>
      Header_Values (Header ?ping) ''X-Lantern-Ping'' = [''small'']"
    using built0 by simp
  have req1: "Method ?real = ''HEAD'' \<and> URL ?real = ''http://example.com:80/index.html'' \<and>
      Header ?real ''X-Lantern-Ping'' = None"
    using built1 by (simp add: canon_ping)
  have ex0: "\<exists>req. snd (snd (checkRequest exampleWorld noOverride (serverWith []) ''device-1'')) = Inr req \<and>
      Method req = ''HEAD'' \<and> URL req = ''http://ping-chained-server'' \<and>
      Header_Values (Header req) ''X-Lantern-Ping'' = [''small'']"
    using req0 by (simp add: cr0)
  have ex1: "\<exists>req. snd (snd (checkRequest exampleWorld noOverride (serverWith [''example.com:80''])
        ''device-1'')) = Inr req \<and>
      Method req = ''HEAD'' \<and> URL req = ''http://example.com:80/index.html'' \<and>
      Header req ''X-Lantern-Ping'' = None"
    using req1 by (simp add: cr1)
  have ping: "check exampleWorld noOverride (serverWith []) exampleDial ''device-1'' =
     \<lparr>result = True, returned = serverWith [], settled = serverWith []\<rparr>"
    using built0 by (intro check_result.equality)
      (simp_all add: example_RoundTrip exampleRoundTrip_def time_Second_def probe_def)
  have busy: "check exampleWorld noOverride (serverWith [''busy.example:80'', ''example.com:80''])
        exampleDial ''device-1'' =
     \<lparr>result = False, returned = serverWith [''example.com:80''],
      settled = serverWith [''example.com:80'']\<rparr>"
    using built2 by (intro check_result.equality)
      (simp_all add: example_RoundTrip exampleRoundTrip_def time_Second_def probe_def)
  have bad: "check exampleWorld noOverride (serverWith [''bad host:80'']) exampleDial ''device-1'' =
     \<lparr>result = False, returned = serverWith [], settled = serverWith []\<rparr>"
    using failed3 by simp
  from pop0 pop1 ex0 ex1 ping busy bad show ?thesis by blast
qed

subsection \<open>Properties of addCheckTarget\<close>

lemma HasSuffix_suffix: "HasSuffix s suf \<longleftrightarrow> suffix suf s"
proof
  assume "HasSuffix s suf"
  then have "s = take (length s - length suf) s @ suf"
    by (metis HasSuffix_def append_take_drop_id)
  then show "suffix suf s"
    by (rule suffixI)
next
  assume "suffix suf s"
  then obtain p where "s = p @ suf"
    by (auto simp: suffix_def)
  then show "HasSuffix s suf"
    by (simp add: HasSuffix_def)
qed

lemma hasInternalSuffix_iff:
  "hasInternalSuffix host sufs \<longleftrightarrow> (\<exists>suf \<in> set sufs. suffix suf host)"
  by (induction sufs) (auto simp: HasSuffix_suffix)

lemma split_80: "SplitHostPort ''1.2.3.4:80'' = Inr (''1.2.3.4'', ''80'')"
  by code_simp

lemma split_443: "SplitHostPort ''1.2.3.4:443'' = Inr (''1.2.3.4'', ''443'')"
  by code_simp

lemma split_internal: "SplitHostPort ''sub.getlantern.org:80'' = Inr (''sub.getlantern.org'', ''80'')"
  by code_simp

lemma split_noport: "SplitHostPort ''1.2.3.4'' = Inl ''missing port in address''"
  by code_simp

lemma internal_80: "\<not> hasInternalSuffix ''1.2.3.4'' internalSiteSuffixes"
  by code_simp

lemma internal_sub: "hasInternalSuffix ''sub.getlantern.org'' internalSiteSuffixes"
  by code_simp

text \<open>
  C5. An address that \<open>SplitHostPort\<close> cannot split leaves the server as it was, and so
  does one whose port is not \<^verbatim>\<open>80\<close> and one whose host ends with one of
  \<^verbatim>\<open>getlantern.org\<close>, \<^verbatim>\<open>getiantem.org\<close>, \<^verbatim>\<open>lantern.io\<close>; for any other address
  \<open>add\<close> is called with it on the list of check targets. So \<^verbatim>\<open>1.2.3.4:80\<close> is queued
  behind the resident entries of a list that has room, and \<^verbatim>\<open>1.2.3.4:443\<close> and
  \<^verbatim>\<open>sub.getlantern.org:80\<close> change nothing.
\<close>

theorem addCheckTarget_policy:
  "internalSiteSuffixes = [''getlantern.org'', ''getiantem.org'', ''lantern.io''] \<and>
   (SplitHostPort addr = Inl e \<longrightarrow> addCheckTarget s addr = s) \<and>
   (SplitHostPort addr = Inr (host, port) \<and> port \<noteq> ''80'' \<longrightarrow> addCheckTarget s addr = s) \<and>
   (SplitHostPort addr = Inr (host, port) \<and> (\<exists>suf \<in> set internalSiteSuffixes. suffix suf host) \<longrightarrow>
      addCheckTarget s addr = s) \<and>
   (SplitHostPort addr = Inr (host, port) \<and> port = ''80'' \<and>
    \<not> (\<exists>suf \<in> set internalSiteSuffixes. suffix suf host) \<longrightarrow>
      addCheckTarget s addr = s\<lparr>checkTargets := add (checkTargets s) addr\<rparr>) \<and>
   (ch (checkTargets s) = Some c \<and> length (buf c) < cap c \<longrightarrow>
      entries (checkTargets (addCheckTarget s ''1.2.3.4:80'')) =
        entries (checkTargets s) @ [''1.2.3.4:80'']) \<and>
   addCheckTarget s ''1.2.3.4:443'' = s \<and>
   addCheckTarget s ''sub.getlantern.org:80'' = s"
proof -
  have general: "(SplitHostPort addr = Inl e \<longrightarrow> addCheckTarget s addr = s) \<and>
   (SplitHostPort addr = Inr (host, port) \<and> port \<noteq> ''80'' \<longrightarrow> addCheckTarget s addr = s) \<and>
   (SplitHostPort addr = Inr (host, port) \<and> (\<exists>suf \<in> set internalSiteSuffixes. suffix suf host) \<longrightarrow>
      addCheckTarget s addr = s) \<and>
   (SplitHostPort addr = Inr (host, port) \<and> port = ''80'' \<and>
    \<not> (\<exists>suf \<in> set internalSiteSuffixes. suffix suf host) \<longrightarrow>
      addCheckTarget s addr = s\<lparr>checkTargets := add (checkTargets s) addr\<rparr>)"
    by (simp add: addCheckTarget_def hasInternalSuffix_iff)
  have ins: "entries (checkTargets (addCheckTarget s ''1.2.3.4:80'')) =
        entries (checkTargets s) @ [''1.2.3.4:80'']"
    if "ch (checkTargets s) = Some c" "length (buf c) < cap c"
    using that by (simp add: addCheckTarget_def split_80 internal_80 add_def entries_def)
  have skip1: "addCheckTarget s ''1.2.3.4:443'' = s"
    by (simp add: addCheckTarget_def split_443)
  have skip2: "addCheckTarget s ''sub.getlantern.org:80'' = s"
    by (simp add: addCheckTarget_def split_internal internal_sub)
  from general ins skip1 skip2 show ?thesis
    by (simp add: internalSiteSuffixes_def)
qed

theorem addCheckTarget_policy_witness:
  "entries (checkTargets (addCheckTarget (serverWith []) ''1.2.3.4:80'')) = [''1.2.3.4:80''] \<and>
   addCheckTarget (serverWith []) ''1.2.3.4'' = serverWith [] \<and>
   addCheckTarget (serverWith []) ''1.2.3.4:443'' = serverWith [] \<and>
   addCheckTarget (serverWith []) ''sub.getlantern.org:80'' = serverWith [] \<and>
   addCheckTarget (serverWith [''a.example:80'']) ''example.com:80'' =
     serverWith [''a.example:80'', ''example.com:80'']"
proof -
  have split_example: "SplitHostPort ''example.com:80'' = Inr (''example.com'', ''80'')"
    by code_simp
  have external: "\<not> (\<exists>suf \<in> set internalSiteSuffixes. suffix suf ''example.com'')"
    unfolding hasInternalSuffix_iff [symmetric] by code_simp
  have internal: "\<exists>suf \<in> set internalSiteSuffixes. suffix suf ''sub.getlantern.org''"
    unfolding hasInternalSuffix_iff [symmetric] by code_simp
  have room: "ch (checkTargets (serverWith [])) = Some \<lparr>cap = 10, buf = []\<rparr>"
    by (simp add: serverWith_def)
  show ?thesis
    using addCheckTarget_policy [of "''1.2.3.4''" "''missing port in address''" "serverWith []"
        "''''" "''''" "\<lparr>cap = 10, buf = []\<rparr>"]
      addCheckTarget_policy [of "''sub.getlantern.org:80''" "''''" "serverWith []"
        "''sub.getlantern.org''" "''80''" "\<lparr>cap = 10, buf = []\<rparr>"]
      addCheckTarget_policy [of "''example.com:80''" "''''" "serverWith [''a.example:80'']"
        "''example.com''" "''80''" "\<lparr>cap = 10, buf = []\<rparr>"]
      addCheckTarget_policy [of "''1.2.3.4:443''" "''''" "serverWith []"
        "''1.2.3.4''" "''443''" "\<lparr>cap = 10, buf = []\<rparr>"]
    by (simp add: split_noport split_internal split_example split_443 external internal room
        serverWith_add) (simp add: serverWith_def entries_def)
qed

subsection \<open>Properties of Dialer\<close>

lemma Dialer_built:
  assumes "pluggableTransports w (PluggableTransport s0) = Some dialFactory"
    and "dialFactory g0 s0 deviceID = Inr dial"
  shows "Dialer w g0 s0 deviceID =
     (Inr \<lparr>Label = dialerLabel s0,
           dialer_Trusted = Trusted s0,
           DialFN = (\<lambda>g st. dialFN_body (chainedDial w (dial g) (dialerLabel s0) deviceID g st) st),
           Check = (\<lambda>g st. check w g st (chainedDial w (dial g) (dialerLabel s0) deviceID g st) deviceID),
           OnRequest = (\<lambda>g st req. attachHeaders g st req deviceID)\<rparr>,
      s0\<lparr>checkTargets := initIfNecessary (checkTargets s0) 10\<rparr>)"
  using assms by (simp add: Dialer_def Let_def)

lemma example_Dialer:
  "Dialer exampleWorld g0 exampleServer ''device-1'' = (Inr exampleDialer, serverWith [])"
proof -
  have reg: "pluggableTransports exampleWorld (PluggableTransport exampleServer) =
      Some (\<lambda>g s deviceID. Inr (\<lambda>g'. exampleDial))"
    by (simp add: exampleWorld_def exampleServer_def)
  have label: "dialerLabel exampleServer = ''chained proxy at 203.0.113.7:443 []''"
    by (simp add: dialerLabel_def exampleServer_def)
  have init: "exampleServer\<lparr>checkTargets := initIfNecessary (checkTargets exampleServer) 10\<rparr> = serverWith []"
    by (simp add: serverWith_def initIfNecessary_def exampleServer_def)
  show ?thesis
    using Dialer_built [OF reg refl, of g0 "''device-1''"]
    by (simp add: label init exampleDialer_def) (simp add: exampleServer_def)
qed

lemma example_chainedDial: "chainedDial exampleWorld dial label deviceID g s = dial"
  by (simp add: chainedDial_def exampleWorld_def)

lemma example_target:
  "addCheckTarget (serverWith []) ''example.com:80'' = serverWith [''example.com:80'']"
proof -
  have split_example: "SplitHostPort ''example.com:80'' = Inr (''example.com'', ''80'')"
    by code_simp
  have external: "\<not> hasInternalSuffix ''example.com'' internalSiteSuffixes"
    by code_simp
  show ?thesis
    by (simp add: addCheckTarget_def split_example external serverWith_add)
qed

text \<open>
  C4. A server whose transport name has no dial factory in the registry gets no dialer:
  the constructor returns the error "No dial factory defined for transport: " followed by
  the name, and leaves the server as it was. The name may be empty or not.
\<close>

theorem Dialer_no_dial_factory:
  assumes "pluggableTransports w (PluggableTransport s) = None"
  shows "Dialer w g s deviceID =
     (Inl (''No dial factory defined for transport: '' @ PluggableTransport s), s)"
  using assms by (simp add: Dialer_def)

theorem Dialer_no_dial_factory_witness:
  "PluggableTransport (exampleServer\<lparr>PluggableTransport := ''obfs5''\<rparr>) \<noteq> '''' \<and>
   pluggableTransports exampleWorld ''obfs5'' = None \<and>
   Dialer exampleWorld noOverride (exampleServer\<lparr>PluggableTransport := ''obfs5''\<rparr>) ''device-1'' =
     (Inl ''No dial factory defined for transport: obfs5'',
      exampleServer\<lparr>PluggableTransport := ''obfs5''\<rparr>)"
proof -
  have none: "pluggableTransports exampleWorld
      (PluggableTransport (exampleServer\<lparr>PluggableTransport := ''obfs5''\<rparr>)) = None"
    by (simp add: exampleWorld_def)
  show ?thesis
    using Dialer_no_dial_factory [OF none, of noOverride "''device-1''"] none by simp
qed

text \<open>
  C3. Let \<open>bd\<close> be the dialer built for a server, \<open>dial\<close> what the dial factory has
  returned, and \<open>d\<close> the chained dial path over \<open>dial\<close>. A call of the dial function of
  \<open>bd\<close> with a network and an address calls \<open>d\<close> with them. When \<open>d\<close> returns a
  connection, the call returns that connection inside an \<^verbatim>\<open>idletiming\<close> wrapper with a
  timeout of 3600 seconds, and the server is the one \<open>addCheckTarget\<close> gives for the
  address. When \<open>d\<close> returns an error, the call returns this very error and the server is
  unchanged.
\<close>

theorem Dialer_DialFN:
  assumes "Dialer w g0 s0 deviceID = (Inr bd, s1)"
    and "pluggableTransports w (PluggableTransport s0) = Some dialFactory"
    and "dialFactory g0 s0 deviceID = Inr dial"
  shows "(chainedDial w (dial g) (dialerLabel s0) deviceID g s network addr = Inr c \<longrightarrow>
        DialFN bd g s network addr =
          (Inr (IdleTimingConn c (3600 * time_Second)), addCheckTarget s addr)) \<and>
     (chainedDial w (dial g) (dialerLabel s0) deviceID g s network addr = Inl err \<longrightarrow>
        DialFN bd g s network addr = (Inl err, s))"
proof -
  have "DialFN bd = (\<lambda>g st. dialFN_body (chainedDial w (dial g) (dialerLabel s0) deviceID g st) st)"
    using assms(1) Dialer_built [OF assms(2,3)] by auto
  then show ?thesis
    by (simp add: dialFN_body_def idleTimeout_def time_Hour_def)
qed

theorem Dialer_DialFN_witness:
  "Dialer exampleWorld noOverride exampleServer ''device-1'' = (Inr exampleDialer, serverWith []) \<and>
   DialFN exampleDialer noOverride (serverWith []) ''tcp'' ''example.com:80'' =
     (Inr (IdleTimingConn (RawConn 1) 3600000000000), serverWith [''example.com:80'']) \<and>
   DialFN exampleDialer noOverride (serverWith [''example.com:80'']) ''tcp'' ''down.example:80'' =
     (Inl ''connection refused'', serverWith [''example.com:80''])"
proof -
  have reg: "pluggableTransports exampleWorld (PluggableTransport exampleServer) =
      Some (\<lambda>g s deviceID. Inr (\<lambda>g'. exampleDial))"
    by (simp add: exampleWorld_def exampleServer_def)
  note d = Dialer_DialFN [OF example_Dialer reg refl, where g = noOverride and network = "''tcp''"]
  have ok: "DialFN exampleDialer noOverride (serverWith []) ''tcp'' ''example.com:80'' =
     (Inr (IdleTimingConn (RawConn 1) 3600000000000), serverWith [''example.com:80''])"
    using d [where s = "serverWith []" and addr = "''example.com:80''" and c = "RawConn 1"]
    by (simp add: example_chainedDial exampleDial_def example_target time_Second_def)
  have refused: "DialFN exampleDialer noOverride (serverWith [''example.com:80'']) ''tcp'' ''down.example:80'' =
     (Inl ''connection refused'', serverWith [''example.com:80''])"
    using d [where s = "serverWith [''example.com:80'']" and addr = "''down.example:80''"
        and err = "''connection refused''"]
    by (simp add: example_chainedDial exampleDial_def)
  from example_Dialer ok refused show ?thesis by blast
qed

subsection \<open>The forced proxy address\<close>

lemma dialThrough_default:
  assumes "pluggableTransports w (PluggableTransport s) = Some (defaultDialFactory connect)"
  shows "dialThrough w g s deviceID network addr =
     Inr (dialFN_body
            (chainedDial w
               (connect (if ForceChainedProxyAddr g \<noteq> [] then ForceChainedProxyAddr g else Addr s))
               (dialerLabel s) deviceID g (s\<lparr>checkTargets := initIfNecessary (checkTargets s) 10\<rparr>))
            (s\<lparr>checkTargets := initIfNecessary (checkTargets s) 10\<rparr>) network addr)"
  using Dialer_built [OF assms, of g deviceID]
  by (simp add: dialThrough_def defaultDialFactory_def)

lemma forcedWorld_registry:
  "pluggableTransports forcedWorld (PluggableTransport exampleServer) =
     Some (defaultDialFactory exampleConnect)"
  by (simp add: forcedWorld_def exampleServer_def)

lemma forcedWorld_chainedDial: "chainedDial forcedWorld dial label deviceID g s = dial"
  by (simp add: chainedDial_def forcedWorld_def exampleWorld_def)

lemma exampleServer_built:
  "exampleServer\<lparr>checkTargets := initIfNecessary (checkTargets exampleServer) 10\<rparr> = serverWith []"
  by (simp add: serverWith_def initIfNecessary_def exampleServer_def)

lemma dialThrough_unforced:
  "dialThrough forcedWorld noOverride exampleServer ''device-1'' ''tcp'' ''example.com:80'' =
     Inr (Inr (IdleTimingConn (RawConn 1) idleTimeout), serverWith [''example.com:80''])"
  by (simp add: dialThrough_default [OF forcedWorld_registry] exampleServer_built
      forcedWorld_chainedDial dialFN_body_def example_target noOverride_def exampleConnect_def
      exampleServer_def [THEN arg_cong, of Addr])

lemma dialThrough_forced:
  "dialThrough forcedWorld (noOverride\<lparr>ForceChainedProxyAddr := ''198.51.100.9:443''\<rparr>) exampleServer
       ''device-1'' ''tcp'' ''example.com:80'' =
     Inr (Inr (IdleTimingConn (RawConn 2) idleTimeout), serverWith [''example.com:80''])"
  by (simp add: dialThrough_default [OF forcedWorld_registry] exampleServer_built
      forcedWorld_chainedDial dialFN_body_def example_target exampleConnect_def)

text \<open>
  C9. With the default dial factory in the registry, the forced proxy address is read:
  there are a server and a device identifier for which the construction of the dialer
  followed by a dial call gives one result when the forced address is empty and another
  when it is set to a non-empty address, everything else being the same. For the example
  server the call returns connection 1, reached by way of the server's own address, in the
  first run, and connection 2, reached by way of the forced address, in the second.
\<close>

theorem forced_addr_read:
  "\<exists>s deviceID network addr a.
     ForceChainedProxyAddr noOverride = '''' \<and> a \<noteq> '''' \<and>
     dialThrough forcedWorld noOverride s deviceID network addr =
       Inr (Inr (IdleTimingConn (RawConn 1) idleTimeout), serverWith [''example.com:80'']) \<and>
     dialThrough forcedWorld (noOverride\<lparr>ForceChainedProxyAddr := a\<rparr>) s deviceID network addr =
       Inr (Inr (IdleTimingConn (RawConn 2) idleTimeout), serverWith [''example.com:80'']) \<and>
     dialThrough forcedWorld (noOverride\<lparr>ForceChainedProxyAddr := a\<rparr>) s deviceID network addr \<noteq>
       dialThrough forcedWorld noOverride s deviceID network addr"
proof -
  have unset: "ForceChainedProxyAddr noOverride = ''''"
    by (simp add: noOverride_def)
  have set: "''198.51.100.9:443'' \<noteq> ''''"
    by simp
  have differ: "dialThrough forcedWorld (noOverride\<lparr>ForceChainedProxyAddr := ''198.51.100.9:443''\<rparr>)
        exampleServer ''device-1'' ''tcp'' ''example.com:80'' \<noteq>
      dialThrough forcedWorld noOverride exampleServer ''device-1'' ''tcp'' ''example.com:80''"
    by (simp add: dialThrough_unforced dialThrough_forced)
  from unset set dialThrough_unforced dialThrough_forced differ show ?thesis
    by blast
qed

end
